theory Spec2Isabelle
  imports Main
begin

section \<open>The Ormar user-database adapter of fastapi-users\<close>

text \<open>
  The development embeds \<^verbatim>\<open>fastapi_users/db/ormar.py\<close>: the class
  \<^verbatim>\<open>OrmarUserDatabase\<close> with its six operations and the method
  \<^verbatim>\<open>OrmarBaseUserModel.to_dict\<close>. The relational store behind the object-relational
  mapping layer is an explicit state: the rows of the user table and the rows of the
  OAuth-account table, each in the order in which the store returns them. Every operation
  takes the adapter (its constructor arguments) and the store; a read returns
  \<open>error + result\<close>, a write returns that together with the store it leaves behind, so that
  what a failed write has already written stays visible.

  The file is a port of the adapter for the Tortoise mapping layer to ormar (line 137
  still names Tortoise). Three places keep a call of the former that an ormar model does
  not answer: \<^verbatim>\<open>self._meta\<close> in \<^verbatim>\<open>to_dict\<close> (lines 33 and 35),
  \<^verbatim>\<open>self.model.get\<close> in \<^verbatim>\<open>update\<close> (line 140, where the other lookups go
  through \<^verbatim>\<open>self.model.objects\<close>), and the test of the result of \<^verbatim>\<open>first\<close> for
  \<^verbatim>\<open>None\<close> in \<^verbatim>\<open>get_by_email\<close> (line 99), which ormar never returns. The model
  follows the code as it runs on ormar.
\<close>

subsection \<open>Data model\<close>

text \<open>\<^verbatim>\<open>UUID4\<close> values are only compared for equality; they are natural numbers here.\<close>

type_synonym uuid4 = nat

text \<open>
  The columns of \<^verbatim>\<open>OrmarBaseUserModel\<close> (source lines 25 to 29). The column
  \<^verbatim>\<open>id\<close> is written \<open>row_id\<close>, since \<open>id\<close> is the identity function of HOL.
\<close>

record OrmarBaseUserModel =
  row_id :: uuid4
  row_email :: string
  row_hashed_password :: string
  row_is_active :: bool
  row_is_superuser :: bool

text \<open>
  The seven value columns of \<^verbatim>\<open>OrmarBaseOAuthAccountModel\<close> (source lines 47 to 53),
  which are also the fields of the domain object of one OAuth account
  (\<^verbatim>\<open>id\<close> is written \<open>oa_id\<close>).
\<close>

record oauth_account =
  oa_id :: uuid4
  oauth_name :: string
  access_token :: string
  expires_at :: int
  refresh_token :: "string option"
  account_id :: string
  account_email :: string

text \<open>
  A stored OAuth-account row: the value columns and the foreign key \<^verbatim>\<open>user\<close> that the
  adapter passes as \<^verbatim>\<open>user=model\<close> (source lines 129 and 150).
\<close>

record OrmarBaseOAuthAccountModel =
  user :: uuid4
  cols :: oauth_account

text \<open>
  The domain user \<^verbatim>\<open>UD\<close>. Its class is a constructor argument of the adapter; it has the
  five scalar fields and, when it includes the OAuth mixin, the field
  \<^verbatim>\<open>oauth_accounts\<close>. \<open>oauth_accounts = None\<close> stands for a class without that field, so
  that \<^verbatim>\<open>user.dict()\<close> has no such key and \<^verbatim>\<open>pop("oauth_accounts", None)\<close> gives
  \<^verbatim>\<open>None\<close>.
\<close>

record UD =
  uid :: uuid4
  email :: string
  hashed_password :: string
  is_active :: bool
  is_superuser :: bool
  oauth_accounts :: "oauth_account list option"

datatype user_db_model = UserDB | UserDB_OAuth

text \<open>
  What the mapping layer knows from the declaration of the concrete user model, which is
  not part of the source file: the names of its reverse relations and the action of the
  foreign key of the OAuth-account table when a user row is deleted.
\<close>

datatype fk_action = Cascade | Restrict | Unenforced

record model_meta =
  backward_fk_fields :: "string list"
  ondelete :: fk_action

datatype oauth_model = OAuthAccountModel

text \<open>The three constructor arguments (source lines 68 to 76).\<close>

record OrmarUserDatabase =
  user_db_model :: user_db_model
  model :: model_meta
  oauth_account_model :: "oauth_model option"

record database =
  users :: "OrmarBaseUserModel list"
  oauth_rows :: "OrmarBaseOAuthAccountModel list"


text \<open>
  The failures that reach the adapter: the two of a lookup for one row, the violation of
  a primary key, a unique column or a foreign key, the use of a relation that the user
  model does not declare, and the read of an attribute that an object does not have. The
  adapter catches the first one only, and only in \<^verbatim>\<open>get\<close> and
  \<^verbatim>\<open>get_by_oauth_account\<close>.
\<close>

datatype error = NoMatch | MultipleMatches | IntegrityError | FieldError | AttributeError

subsection \<open>The mapping layer as the adapter meets it\<close>

text \<open>
  \<^verbatim>\<open>prefetch_related\<close> and a filter through a relation need the relation to be declared on
  the user model; they fail otherwise, with an error that is not \<^verbatim>\<open>NoMatch\<close>.
\<close>

definition has_relation :: "model_meta \<Rightarrow> string \<Rightarrow> bool" where
  "has_relation meta name = (name \<in> set (backward_fk_fields meta))"

definition prefetch_related :: "model_meta \<Rightarrow> string \<Rightarrow> error + unit" where
  "prefetch_related meta name = (if has_relation meta name then Inr () else Inl FieldError)"

text \<open>
  \<^verbatim>\<open>QuerySet.get\<close> with a filter: the rows that match are fetched; when there are
  some, the prefetched relation is loaded for them; then there has to be exactly one.
  Without a row it raises \<^verbatim>\<open>NoMatch\<close> before anything is prefetched.
\<close>

definition objects_get :: "(error + unit) \<Rightarrow> ('a \<Rightarrow> bool) \<Rightarrow> 'a list \<Rightarrow> error + 'a" where
  "objects_get prefetch p rows =
     (case filter p rows of
        [] \<Rightarrow> Inl NoMatch
      | r # rs \<Rightarrow>
          (case prefetch of
             Inl e \<Rightarrow> Inl e
           | Inr _ \<Rightarrow> if rs = [] then Inr r else Inl MultipleMatches))"

text \<open>
  \<^verbatim>\<open>QuerySet.first\<close>: of the rows that match, the one with the least primary key.
  Without a row it raises \<^verbatim>\<open>NoMatch\<close>, as \<^verbatim>\<open>get\<close> does; its result is a row, never
  \<^verbatim>\<open>None\<close>. The result type has a \<^verbatim>\<open>None\<close> only for the test of source line 99.
\<close>

definition objects_first ::
  "(error + unit) \<Rightarrow> (OrmarBaseUserModel \<Rightarrow> bool) \<Rightarrow> OrmarBaseUserModel list \<Rightarrow>
     error + OrmarBaseUserModel option" where
  "objects_first prefetch p rows =
     (case sort_key row_id (filter p rows) of
        [] \<Rightarrow> Inl NoMatch
      | r # _ \<Rightarrow> (case prefetch of Inl e \<Rightarrow> Inl e | Inr _ \<Rightarrow> Inr (Some r)))"

text \<open>
  The lookup \<^verbatim>\<open>email__iexact\<close> is a case-insensitive \<^verbatim>\<open>LIKE\<close> with the argument as the
  pattern, not escaped: \<^verbatim>\<open>%\<close> in the argument stands for any characters and \<^verbatim>\<open>_\<close>
  for any one character; any other character matches itself, the letters \<^verbatim>\<open>A\<close> to
  \<^verbatim>\<open>Z\<close> folded to lower case. The store of source line 14 has no escape character
  in a pattern.
\<close>

definition lower_char :: "char \<Rightarrow> char" where
  "lower_char c =
     (let n = (of_char c :: nat)
      in if 65 \<le> n \<and> n \<le> 90 then char_of (n + 32) else c)"

fun like :: "string \<Rightarrow> string \<Rightarrow> bool" where
  "like [] [] = True"
| "like [] (c # cs) = False"
| "like (p # ps) [] = (p = CHR ''%'' \<and> like ps [])"
| "like (p # ps) (c # cs) =
     (if p = CHR ''%'' then like ps (c # cs) \<or> like (p # ps) cs
      else (p = CHR ''_'' \<or> lower_char p = lower_char c) \<and> like ps cs)"

definition iexact :: "string \<Rightarrow> string \<Rightarrow> bool" where
  "iexact column argument = like argument column"

text \<open>
  The OAuth-account rows whose foreign key is a given id, in stored order, and what
  \<^verbatim>\<open>getattr(self, field).all().values()\<close> would give for a reverse relation: the value
  columns of the linked rows for \<^verbatim>\<open>oauth_accounts\<close>, the only relation into a table of the
  store.
\<close>

definition linked :: "database \<Rightarrow> uuid4 \<Rightarrow> OrmarBaseOAuthAccountModel list" where
  "linked db i = filter (\<lambda>r. user r = i) (oauth_rows db)"

definition related_values :: "database \<Rightarrow> OrmarBaseUserModel \<Rightarrow> string \<Rightarrow> oauth_account list" where
  "related_values db self field =
     (if field = ''oauth_accounts'' then map cols (linked db (row_id self)) else [])"

text \<open>
  \<^verbatim>\<open>self._meta\<close> on a fetched row. An ormar model keeps its declaration in
  \<^verbatim>\<open>Meta\<close> and has no attribute \<^verbatim>\<open>_meta\<close>: the read raises
  \<^verbatim>\<open>AttributeError\<close>, for every row.
\<close>

definition getattr_meta :: "OrmarBaseUserModel \<Rightarrow> error + model_meta" where
  "getattr_meta self = Inl AttributeError"

text \<open>
  \<^verbatim>\<open>to_dict\<close> (source lines 31 to 37): the columns named by
  \<^verbatim>\<open>self._meta.db_fields\<close>, then one entry for each name in
  \<^verbatim>\<open>self._meta.backward_fk_fields\<close>. Line 33 reads \<^verbatim>\<open>self._meta\<close> first, so the
  method raises before it has read a column.
\<close>

definition to_dict ::
  "database \<Rightarrow> OrmarBaseUserModel \<Rightarrow>
     error + OrmarBaseUserModel \<times> (string \<times> oauth_account list) list" where
  "to_dict db self =
     (case getattr_meta self of
        Inl e \<Rightarrow> Inl e
      | Inr meta \<Rightarrow>
          Inr (self, map (\<lambda>field. (field, related_values db self field))
                       (backward_fk_fields meta)))"

text \<open>
  \<^verbatim>\<open>self.user_db_model(**user_dict)\<close>: the domain class keeps the keys it declares. With
  the OAuth mixin the field \<^verbatim>\<open>oauth_accounts\<close> defaults to the empty list.
\<close>

definition construct ::
  "user_db_model \<Rightarrow> OrmarBaseUserModel \<times> (string \<times> oauth_account list) list \<Rightarrow> UD" where
  "construct udm d =
     \<lparr>uid = row_id (fst d),
      email = row_email (fst d),
      hashed_password = row_hashed_password (fst d),
      is_active = row_is_active (fst d),
      is_superuser = row_is_superuser (fst d),
      oauth_accounts =
        (case udm of
           UserDB \<Rightarrow> None
         | UserDB_OAuth \<Rightarrow>
             Some (case map_of (snd d) ''oauth_accounts'' of None \<Rightarrow> [] | Some xs \<Rightarrow> xs))\<rparr>"

text \<open>Lines 86 and 88, 102 and 103, 112 and 114: the fetched row becomes a domain object.\<close>

definition to_domain :: "OrmarUserDatabase \<Rightarrow> database \<Rightarrow> OrmarBaseUserModel \<Rightarrow> error + UD" where
  "to_domain self db row =
     (case to_dict db row of
        Inl e \<Rightarrow> Inl e
      | Inr user_dict \<Rightarrow> Inr (construct (user_db_model self) user_dict))"

text \<open>\<^verbatim>\<open>self.model(**user_dict)\<close> after \<^verbatim>\<open>oauth_accounts\<close> was popped (source line 122).\<close>

definition model_of :: "UD \<Rightarrow> OrmarBaseUserModel" where
  "model_of u =
     \<lparr>row_id = uid u,
      row_email = email u,
      row_hashed_password = hashed_password u,
      row_is_active = is_active u,
      row_is_superuser = is_superuser u\<rparr>"

text \<open>
  \<^verbatim>\<open>save\<close> of a new row is an insert: the primary key and the unique column
  \<^verbatim>\<open>email\<close> (source lines 25 and 26) must be new.
\<close>

definition save_new :: "database \<Rightarrow> OrmarBaseUserModel \<Rightarrow> error + database" where
  "save_new db m =
     (if row_id m \<in> set (map row_id (users db)) \<or> row_email m \<in> set (map row_email (users db))
      then Inl IntegrityError
      else Inr (db\<lparr>users := users db @ [m]\<rparr>))"

text \<open>
  \<^verbatim>\<open>save\<close> of a fetched row whose fields were set writes the row with that primary
  key; the unique column \<^verbatim>\<open>email\<close> must not collide with another row. No run of
  \<^verbatim>\<open>update\<close> gets this far.
\<close>

definition save_fetched :: "database \<Rightarrow> OrmarBaseUserModel \<Rightarrow> error + database" where
  "save_fetched db m =
     (if \<exists>r \<in> set (users db). row_id r \<noteq> row_id m \<and> row_email r = row_email m
      then Inl IntegrityError
      else Inr (db\<lparr>users := map (\<lambda>r. if row_id r = row_id m then m else r) (users db)\<rparr>))"

text \<open>
  \<^verbatim>\<open>bulk_create\<close> inserts the account rows one after the other. A row whose primary
  key is already stored stops it with an error; the rows before it stay inserted.
\<close>

fun bulk_create ::
  "database \<Rightarrow> OrmarBaseOAuthAccountModel list \<Rightarrow> (error + unit) \<times> database" where
  "bulk_create db [] = (Inr (), db)"
| "bulk_create db (x # xs) =
     (if oa_id (cols x) \<in> set (map (oa_id \<circ> cols) (oauth_rows db))
      then (Inl IntegrityError, db)
      else bulk_create (db\<lparr>oauth_rows := oauth_rows db @ [x]\<rparr>) xs)"

text \<open>The loop of source lines 126 to 130 and 147 to 151.\<close>

definition oauth_account_objects ::
  "OrmarBaseUserModel \<Rightarrow> oauth_account list \<Rightarrow> OrmarBaseOAuthAccountModel list" where
  "oauth_account_objects m accounts = map (\<lambda>a. \<lparr>user = row_id m, cols = a\<rparr>) accounts"

text \<open>The condition \<^verbatim>\<open>oauth_accounts and self.oauth_account_model\<close> of lines 125 and 145.\<close>

definition writes_accounts :: "OrmarUserDatabase \<Rightarrow> oauth_account list option \<Rightarrow> bool" where
  "writes_accounts self accounts =
     (accounts \<noteq> None \<and> accounts \<noteq> Some [] \<and> oauth_account_model self \<noteq> None)"

text \<open>The list that the loop runs over: \<^verbatim>\<open>None\<close> and the empty list never reach it.\<close>

definition popped :: "oauth_account list option \<Rightarrow> oauth_account list" where
  "popped accounts = (case accounts of None \<Rightarrow> [] | Some xs \<Rightarrow> xs)"

text \<open>
  \<^verbatim>\<open>self.model.get(id=user.id)\<close> (source line 140). An ormar model class has its
  queries under \<^verbatim>\<open>objects\<close> and has no attribute \<^verbatim>\<open>get\<close>: the read of the attribute
  raises \<^verbatim>\<open>AttributeError\<close> before any query is made, whatever the id.
\<close>

definition model_get :: "database \<Rightarrow> uuid4 \<Rightarrow> error + OrmarBaseUserModel" where
  "model_get db i = Inl AttributeError"

subsection \<open>The operations of \<^verbatim>\<open>OrmarUserDatabase\<close>\<close>

text \<open>Lines 82 and 83, 94 and 95: the relation is prefetched when an OAuth model was given.\<close>

definition prefetch_if_configured :: "OrmarUserDatabase \<Rightarrow> error + unit" where
  "prefetch_if_configured self =
     (if oauth_account_model self \<noteq> None
      then prefetch_related (model self) ''oauth_accounts''
      else Inr ())"

text \<open>
  \<^verbatim>\<open>try: ... except NoMatch: return None\<close> (lines 79, 89 and 90; 106, 115 and 116):
  of the errors of the body only \<^verbatim>\<open>NoMatch\<close> becomes \<^verbatim>\<open>None\<close>.
\<close>

definition except_NoMatch :: "error + 'a \<Rightarrow> error + 'a option" where
  "except_NoMatch body =
     (case body of
        Inl NoMatch \<Rightarrow> Inr None
      | Inl e \<Rightarrow> Inl e
      | Inr x \<Rightarrow> Inr (Some x))"

text \<open>\<^verbatim>\<open>get\<close> (source lines 78 to 90).\<close>

definition get :: "OrmarUserDatabase \<Rightarrow> database \<Rightarrow> uuid4 \<Rightarrow> error + UD option" where
  "get self db i =
     except_NoMatch
       (case objects_get (prefetch_if_configured self) (\<lambda>r. row_id r = i) (users db) of
          Inl e \<Rightarrow> Inl e
        | Inr row \<Rightarrow> to_domain self db row)"

text \<open>
  \<^verbatim>\<open>get_by_email\<close> (source lines 92 to 103). The call of \<^verbatim>\<open>first\<close> is in no
  \<^verbatim>\<open>try\<close>: its \<^verbatim>\<open>NoMatch\<close> reaches the caller.
\<close>

definition get_by_email :: "OrmarUserDatabase \<Rightarrow> database \<Rightarrow> string \<Rightarrow> error + UD option" where
  "get_by_email self db e =
     (case objects_first (prefetch_if_configured self) (\<lambda>r. iexact (row_email r) e) (users db) of
        Inl err \<Rightarrow> Inl err
      | Inr None \<Rightarrow> Inr None
      | Inr (Some row) \<Rightarrow>
          (case to_domain self db row of Inl err \<Rightarrow> Inl err | Inr ud \<Rightarrow> Inr (Some ud)))"

text \<open>
  \<^verbatim>\<open>get_by_oauth_account\<close> (source lines 105 to 116): the user rows that have a linked
  account row with both values; the relation is filtered through and prefetched whether
  or not an OAuth model was given to the constructor.
\<close>

definition has_account :: "database \<Rightarrow> string \<Rightarrow> string \<Rightarrow> OrmarBaseUserModel \<Rightarrow> bool" where
  "has_account db oauth aid r =
     (\<exists>a \<in> set (linked db (row_id r)). oauth_name (cols a) = oauth \<and> account_id (cols a) = aid)"

definition get_by_oauth_account ::
  "OrmarUserDatabase \<Rightarrow> database \<Rightarrow> string \<Rightarrow> string \<Rightarrow> error + UD option" where
  "get_by_oauth_account self db oauth aid =
     except_NoMatch
       (case prefetch_related (model self) ''oauth_accounts'' of
          Inl e \<Rightarrow> Inl e
        | Inr _ \<Rightarrow>
            (case objects_get (Inr ()) (has_account db oauth aid) (users db) of
               Inl e \<Rightarrow> Inl e
             | Inr row \<Rightarrow> to_domain self db row))"

text \<open>
  \<^verbatim>\<open>create\<close> (source lines 118 to 133). The row is saved before the accounts are written,
  and stays saved when the insert of the accounts fails.
\<close>

definition create :: "OrmarUserDatabase \<Rightarrow> database \<Rightarrow> UD \<Rightarrow> (error + UD) \<times> database" where
  "create self db u =
     (case save_new db (model_of u) of
        Inl e \<Rightarrow> (Inl e, db)
      | Inr db1 \<Rightarrow>
          if writes_accounts self (oauth_accounts u)
          then (case bulk_create db1 (oauth_account_objects (model_of u) (popped (oauth_accounts u))) of
                  (Inl e, db2) \<Rightarrow> (Inl e, db2)
                | (Inr _, db2) \<Rightarrow> (Inr u, db2))
          else (Inr u, db1))"

text \<open>
  \<^verbatim>\<open>update\<close> (source lines 135 to 154). The lookup of line 140 is outside any
  \<^verbatim>\<open>try\<close>: what it raises reaches the caller. Lines 141 and 142 would set every field
  but the primary key on the fetched row, which has the primary key \<^verbatim>\<open>user.id\<close>, so that
  the row to save is \<open>model_of u\<close>; line 146 would delete every account row linked to the
  user before the new ones are inserted.
\<close>

definition delete_linked :: "database \<Rightarrow> uuid4 \<Rightarrow> database" where
  "delete_linked db i = db\<lparr>oauth_rows := filter (\<lambda>r. user r \<noteq> i) (oauth_rows db)\<rparr>"

definition update :: "OrmarUserDatabase \<Rightarrow> database \<Rightarrow> UD \<Rightarrow> (error + UD) \<times> database" where
  "update self db u =
     (case model_get db (uid u) of
        Inl e \<Rightarrow> (Inl e, db)
      | Inr m \<Rightarrow>
          (case save_fetched db (model_of u) of
             Inl e \<Rightarrow> (Inl e, db)
           | Inr db1 \<Rightarrow>
               if writes_accounts self (oauth_accounts u)
               then (case bulk_create (delete_linked db1 (uid u))
                            (oauth_account_objects (model_of u) (popped (oauth_accounts u))) of
                       (Inl e, db2) \<Rightarrow> (Inl e, db2)
                     | (Inr _, db2) \<Rightarrow> (Inr u, db2))
               else (Inr u, db1)))"

text \<open>
  \<^verbatim>\<open>delete\<close> (source lines 156 and 157): a filtered delete, which deletes the rows that
  match and does not fail when none does. What happens to the account rows of a deleted
  user is the foreign key's action: they are deleted with it, or they forbid the delete,
  or (a store that does not enforce foreign keys) they stay.
\<close>

definition delete :: "OrmarUserDatabase \<Rightarrow> database \<Rightarrow> UD \<Rightarrow> (error + unit) \<times> database" where
  "delete self db u =
     (let doomed = map row_id (filter (\<lambda>r. row_id r = uid u) (users db));
          kept = filter (\<lambda>r. row_id r \<noteq> uid u) (users db)
      in case ondelete (model self) of
           Cascade \<Rightarrow>
             (Inr (), \<lparr>users = kept,
                       oauth_rows = filter (\<lambda>a. user a \<notin> set doomed) (oauth_rows db)\<rparr>)
         | Restrict \<Rightarrow>
             (if filter (\<lambda>a. user a \<in> set doomed) (oauth_rows db) = []
              then (Inr (), db\<lparr>users := kept\<rparr>)
              else (Inl IntegrityError, db))
         | Unenforced \<Rightarrow> (Inr (), db\<lparr>users := kept\<rparr>))"

subsection \<open>Domain objects with accounts\<close>


subsection \<open>Example adapters, users and stores\<close>

text \<open>An adapter without OAuth accounts, on a user model without reverse relations.\<close>

definition plain_adapter :: OrmarUserDatabase where
  "plain_adapter =
     \<lparr>user_db_model = UserDB,
      model = \<lparr>backward_fk_fields = [], ondelete = Unenforced\<rparr>,
      oauth_account_model = None\<rparr>"

text \<open>An adapter with the OAuth model, whose foreign key declares \<^verbatim>\<open>oauth_accounts\<close>.\<close>

definition oauth_adapter :: OrmarUserDatabase where
  "oauth_adapter =
     \<lparr>user_db_model = UserDB_OAuth,
      model = \<lparr>backward_fk_fields = [''oauth_accounts''], ondelete = Cascade\<rparr>,
      oauth_account_model = Some OAuthAccountModel\<rparr>"

definition empty_store :: database where
  "empty_store = \<lparr>users = [], oauth_rows = []\<rparr>"

definition alice :: UD where
  "alice =
     \<lparr>uid = 1, email = ''Foo@Bar.com'', hashed_password = ''x'', is_active = True,
      is_superuser = False, oauth_accounts = None\<rparr>"

definition bob :: UD where
  "bob =
     \<lparr>uid = 2, email = ''foo@bar.com'', hashed_password = ''y'', is_active = True,
      is_superuser = True, oauth_accounts = None\<rparr>"

definition github_42 :: oauth_account where
  "github_42 =
     \<lparr>oa_id = 10, oauth_name = ''github'', access_token = ''t1'', expires_at = 100,
      refresh_token = None, account_id = ''42'', account_email = ''carol@example.com''\<rparr>"

definition google_7 :: oauth_account where
  "google_7 =
     \<lparr>oa_id = 11, oauth_name = ''google'', access_token = ''t2'', expires_at = 200,
      refresh_token = Some ''r2'', account_id = ''7'', account_email = ''carol@example.com''\<rparr>"

definition gitlab_9 :: oauth_account where
  "gitlab_9 =
     \<lparr>oa_id = 12, oauth_name = ''gitlab'', access_token = ''t3'', expires_at = 300,
      refresh_token = None, account_id = ''9'', account_email = ''carol@example.com''\<rparr>"

definition carol :: UD where
  "carol =
     \<lparr>uid = 3, email = ''carol@example.com'', hashed_password = ''z'', is_active = True,
      is_superuser = False, oauth_accounts = Some [github_42, google_7]\<rparr>"

definition dave :: UD where
  "dave =
     \<lparr>uid = 4, email = ''dave@example.com'', hashed_password = ''w'', is_active = True,
      is_superuser = False, oauth_accounts = Some [github_42\<lparr>oa_id := 13\<rparr>]\<rparr>"

definition store_alice :: database where
  "store_alice = snd (create plain_adapter empty_store alice)"

definition store_carol :: database where
  "store_carol = snd (create oauth_adapter empty_store carol)"

definition store_carol_dave :: database where
  "store_carol_dave = snd (create oauth_adapter store_carol dave)"

text \<open>The store after \<open>dave\<close> is deleted again.\<close>

definition store_dave_deleted :: database where
  "store_dave_deleted = snd (delete oauth_adapter store_carol_dave dave)"

text \<open>\<open>carol\<close> with a new password hash and an empty accounts list.\<close>

definition carol_rehashed :: UD where
  "carol_rehashed = carol\<lparr>hashed_password := ''new'', oauth_accounts := Some []\<rparr>"

text \<open>\<open>carol\<close> with one new account in place of her two.\<close>

definition carol_relinked :: UD where
  "carol_relinked = carol\<lparr>oauth_accounts := Some [gitlab_9]\<rparr>"

section \<open>Properties\<close>

subsection \<open>Lookups in the store\<close>

lemma filter_absent_id:
  "i \<notin> set (map row_id rows) \<Longrightarrow> filter (\<lambda>r. row_id r = i) rows = []"
  by (induction rows) auto

lemma filter_keep_absent_id:
  "i \<notin> set (map row_id rows) \<Longrightarrow> filter (\<lambda>r. row_id r \<noteq> i) rows = rows"
  by (induction rows) auto

lemma objects_get_none: "filter p rows = [] \<Longrightarrow> objects_get prefetch p rows = Inl NoMatch"
  by (simp add: objects_get_def)

lemma objects_first_none:
  "filter p rows = [] \<Longrightarrow> objects_first prefetch p rows = Inl NoMatch"
  by (simp add: objects_first_def)

text \<open>
  What \<^verbatim>\<open>email__iexact\<close> matches: a case variant of the stored email, and also a
  pattern with an unescaped wildcard.
\<close>

lemma iexact_examples:
  "iexact ''Foo@Bar.com'' ''foo@bar.com'' \<and> \<not> iexact ''Foo@Bar.com'' ''foo@bar.org'' \<and>
   iexact ''Foo@Bar.com'' ''foo%'' \<and> iexact ''a_b@x.org'' ''a_b@x.org'' \<and>
   iexact ''aXb@x.org'' ''a_b@x.org''"
  by code_simp

subsection \<open>The three calls that an ormar model does not answer\<close>


text \<open>\<^verbatim>\<open>update\<close> raises on every input and writes nothing.\<close>

lemma update_raises: "update self db u = (Inl AttributeError, db)"
  by (simp add: update_def model_get_def)

text \<open>
  A lookup that finds no row: \<^verbatim>\<open>get\<close> and \<^verbatim>\<open>get_by_oauth_account\<close> return
  \<^verbatim>\<open>None\<close>, \<^verbatim>\<open>get_by_email\<close> raises \<^verbatim>\<open>NoMatch\<close>.
\<close>

lemma get_miss:
  "\<forall>r \<in> set (users db). row_id r \<noteq> i \<Longrightarrow> get self db i = Inr None"
  by (simp add: get_def except_NoMatch_def objects_get_none filter_empty_conv)

lemma get_by_oauth_account_miss:
  "has_relation (model self) ''oauth_accounts'' \<Longrightarrow>
   \<forall>r \<in> set (users db). \<not> has_account db oauth aid r \<Longrightarrow>
   get_by_oauth_account self db oauth aid = Inr None"
  by (simp add: get_by_oauth_account_def except_NoMatch_def prefetch_related_def
        objects_get_none filter_empty_conv)

lemma get_by_email_miss:
  "\<forall>r \<in> set (users db). \<not> iexact (row_email r) e \<Longrightarrow> get_by_email self db e = Inl NoMatch"
  by (simp add: get_by_email_def objects_first_none filter_empty_conv)




lemma users_after_delete:
  "delete self db u = (Inr x, db') \<Longrightarrow> users db' = filter (\<lambda>r. row_id r \<noteq> uid u) (users db)"
  by (cases "ondelete (model self)") (auto simp: delete_def Let_def split: if_splits)

lemma get_after_delete:
  assumes "delete self db u = (Inr x, db')"
  shows "get self db' (uid u) = Inr None"
  by (rule get_miss) (simp add: users_after_delete [OF assms])

subsection \<open>Not found\<close>

text \<open>
  Claim C2. For an id, an email and a pair of provider and account id that match no
  stored user, \<^verbatim>\<open>get\<close> and \<^verbatim>\<open>get_by_oauth_account\<close> return \<^verbatim>\<open>None\<close>, as the claim
  says. \<^verbatim>\<open>get_by_email\<close> does not: the \<^verbatim>\<open>NoMatch\<close> of \<^verbatim>\<open>first\<close> is caught nowhere
  and reaches the caller. The theorem runs the three lookups on the store that holds
  \<open>carol\<close>.
\<close>

theorem get_by_email_miss_raises:
  "get oauth_adapter store_carol 9 = Inr None \<and>
   get_by_oauth_account oauth_adapter store_carol ''github'' ''0'' = Inr None \<and>
   get_by_email oauth_adapter store_carol ''nobody@example.com'' = Inl NoMatch"
  by code_simp

text \<open>
  Claim C8. \<^verbatim>\<open>get\<close> returns \<^verbatim>\<open>None\<close> for the id of a user that was deleted, as for an
  id that was never created. \<^verbatim>\<open>get_by_email\<close> with the email of the deleted user, as
  with an email that was never created, raises \<^verbatim>\<open>NoMatch\<close> instead of returning
  \<^verbatim>\<open>None\<close>. The theorem deletes \<open>dave\<close> from the store that holds \<open>carol\<close> and him.
\<close>

theorem get_by_email_after_delete_raises:
  "delete oauth_adapter store_carol_dave dave = (Inr (), store_dave_deleted) \<and>
   get oauth_adapter store_dave_deleted (uid dave) = Inr None \<and>
   get oauth_adapter store_dave_deleted 9 = Inr None \<and>
   get_by_email oauth_adapter store_dave_deleted (email dave) = Inl NoMatch \<and>
   get_by_email oauth_adapter store_dave_deleted ''nobody@example.com'' = Inl NoMatch"
  by code_simp

text \<open>
  Claim C10. \<^verbatim>\<open>delete\<close> with a domain user whose id no stored row has returns without
  an error and leaves the store unchanged, whatever the foreign key's action.
\<close>

theorem delete_missing_is_noop:
  assumes "uid u \<notin> set (map row_id (users db))"
  shows "delete self db u = (Inr (), db)"
proof -
  have none: "filter (\<lambda>r. row_id r = uid u) (users db) = []"
    using assms by (rule filter_absent_id)
  have all: "filter (\<lambda>r. row_id r \<noteq> uid u) (users db) = users db"
    using assms by (rule filter_keep_absent_id)
  show ?thesis
    by (cases "ondelete (model self)") (simp_all add: delete_def none all)
qed

theorem delete_missing_is_noop_witness:
  "uid bob \<notin> set (map row_id (users store_carol)) \<and>
   delete oauth_adapter store_carol bob = (Inr (), store_carol)"
proof -
  have absent: "uid bob \<notin> set (map row_id (users store_carol))"
    by code_simp
  from absent delete_missing_is_noop [OF absent, of oauth_adapter] show ?thesis
    by simp
qed

subsection \<open>Reading a stored user\<close>

text \<open>
  Claim C3. After \<^verbatim>\<open>create\<close> has stored \<open>carol\<close>, \<^verbatim>\<open>get\<close> with her id finds her row
  and then raises \<^verbatim>\<open>AttributeError\<close> in \<^verbatim>\<open>to_dict\<close>: it returns no domain object, so
  none whose scalar fields are hers.
\<close>

theorem get_after_create_raises:
  "create oauth_adapter empty_store carol = (Inr carol, store_carol) \<and>
   model_of carol \<in> set (users store_carol) \<and>
   get oauth_adapter store_carol (uid carol) = Inl AttributeError"
  by code_simp

text \<open>
  Claim C6. After \<^verbatim>\<open>create\<close> has stored \<open>alice\<close> with the email \<^verbatim>\<open>Foo@Bar.com\<close>,
  \<^verbatim>\<open>get_by_email\<close> with \<^verbatim>\<open>foo@bar.com\<close>, and with her email letter for letter, finds
  her row and then raises \<^verbatim>\<open>AttributeError\<close> in \<^verbatim>\<open>to_dict\<close>; with an email that
  matches no stored user it raises \<^verbatim>\<open>NoMatch\<close>. It returns neither the user nor
  \<^verbatim>\<open>None\<close>.
\<close>

theorem get_by_email_hit_raises:
  "create plain_adapter empty_store alice = (Inr alice, store_alice) \<and>
   get_by_email plain_adapter store_alice ''foo@bar.com'' = Inl AttributeError \<and>
   get_by_email plain_adapter store_alice (email alice) = Inl AttributeError \<and>
   get_by_email plain_adapter store_alice ''nobody@example.com'' = Inl NoMatch"
  by code_simp

text \<open>
  Claim C7. \<^verbatim>\<open>create\<close> with the two accounts of \<open>carol\<close> inserts one account row for
  each, linked to her id, as the claim says. \<^verbatim>\<open>get_by_oauth_account\<close> with the provider
  and account id of either then finds her row and raises \<^verbatim>\<open>AttributeError\<close> in
  \<^verbatim>\<open>to_dict\<close>: it does not return her.
\<close>

theorem lookup_after_create_raises:
  "create oauth_adapter empty_store carol = (Inr carol, store_carol) \<and>
   oauth_rows store_carol =
     [\<lparr>user = uid carol, cols = github_42\<rparr>, \<lparr>user = uid carol, cols = google_7\<rparr>] \<and>
   get_by_oauth_account oauth_adapter store_carol (oauth_name github_42) (account_id github_42) =
     Inl AttributeError \<and>
   get_by_oauth_account oauth_adapter store_carol (oauth_name google_7) (account_id google_7) =
     Inl AttributeError"
  by code_simp


subsection \<open>Update\<close>

text \<open>
  Claim C1. \<^verbatim>\<open>update\<close> of the stored user \<open>carol\<close> with a new accounts list of one
  entry, on the adapter with the OAuth model, raises \<^verbatim>\<open>AttributeError\<close> at line 140 and
  leaves the store as it was: her two account rows are not deleted and no row is inserted.
\<close>

theorem update_replaces_nothing:
  "create oauth_adapter empty_store carol = (Inr carol, store_carol) \<and>
   oauth_accounts carol_relinked = Some [gitlab_9] \<and>
   update oauth_adapter store_carol carol_relinked = (Inl AttributeError, store_carol) \<and>
   oauth_rows store_carol =
     [\<lparr>user = uid carol, cols = github_42\<rparr>, \<lparr>user = uid carol, cols = google_7\<rparr>]"
  by code_simp

text \<open>
  Claim C4. \<^verbatim>\<open>update\<close> with a domain user whose id no stored row has leaves the store
  as it was, and raises: not the \<^verbatim>\<open>NoMatch\<close> of a lookup that finds nothing, but the
  \<^verbatim>\<open>AttributeError\<close> of line 140, which it raises for a stored id as well.
\<close>

theorem update_missing_raises_AttributeError:
  "uid bob \<notin> set (map row_id (users store_alice)) \<and>
   update plain_adapter store_alice bob = (Inl AttributeError, store_alice) \<and>
   uid alice \<in> set (map row_id (users store_alice)) \<and>
   update plain_adapter store_alice alice = (Inl AttributeError, store_alice)"
  by code_simp

text \<open>
  Claim C9. \<^verbatim>\<open>update\<close> of the stored user \<open>carol\<close> with an empty accounts list and a
  new password hash leaves the account rows as they were, as the claim says, and the user
  row as well: it raises \<^verbatim>\<open>AttributeError\<close> at line 140, before the scalar fields are
  written.
\<close>

theorem update_overwrites_nothing:
  "oauth_accounts carol_rehashed = Some [] \<and>
   hashed_password carol_rehashed \<noteq> hashed_password carol \<and>
   update oauth_adapter store_carol carol_rehashed = (Inl AttributeError, store_carol) \<and>
   users store_carol = [model_of carol]"
  by code_simp

end
